theory Spec2Isabelle
  imports Main "HOL-Library.Sublist"
begin

section \<open>Go strings and UTF-8\<close>

text \<open>
  A Go \<^verbatim>\<open>string\<close> is a sequence of bytes; here it is a \<^typ>\<open>string\<close>, a list of
  8-bit characters, and every offset counts bytes.  Package \<^verbatim>\<open>regexp\<close> reads a string
  rune by rune, decoding UTF-8 on the way, and \<^verbatim>\<open>strings.TrimSpace\<close> does the same, so
  the decoder of package \<^verbatim>\<open>unicode/utf8\<close> is part of the model.  The non-ASCII literals
  of \<^verbatim>\<open>tokenize/pragmatic.go\<close> are written out below byte by byte, as they stand in
  that file.
\<close>

type_synonym rune = nat

definition byte :: "char \<Rightarrow> nat" where
  "byte c = of_char c"

definition RuneError :: rune where
  "RuneError = 0xFFFD"

text \<open>
  \<^verbatim>\<open>utf8.DecodeRuneInString\<close>: the rune at the front of the string and its width in
  bytes.  An empty string gives \<^verbatim>\<open>(RuneError, 0)\<close>, a malformed encoding
  \<^verbatim>\<open>(RuneError, 1)\<close>.  The second byte is checked against the range that the first
  byte accepts (which excludes overlong encodings, surrogates and values above
  \<^verbatim>\<open>U+10FFFF\<close>), the others against \<^verbatim>\<open>0x80..0xBF\<close>.
\<close>

fun DecodeRuneInString :: "string \<Rightarrow> rune \<times> nat" where
  "DecodeRuneInString [] = (RuneError, 0)"
| "DecodeRuneInString (c0 # cs) =
    (let s0 = byte c0 in
     if s0 < 0x80 then (s0, 1)
     else if s0 < 0xC2 \<or> 0xF4 < s0 then (RuneError, 1)
     else
       let sz = (if s0 < 0xE0 then 2 else if s0 < 0xF0 then 3 else 4 :: nat);
           lo = (if s0 = 0xE0 then 0xA0 else if s0 = 0xF0 then 0x90 else 0x80);
           hi = (if s0 = 0xED then 0x9F else if s0 = 0xF4 then 0x8F else 0xBF)
       in
       if length (c0 # cs) < sz then (RuneError, 1)
       else
         let s1 = byte (cs ! 0) in
         if s1 < lo \<or> hi < s1 then (RuneError, 1)
         else if sz \<le> 2 then ((s0 mod 32) * 64 + s1 mod 64, 2)
         else
           let s2 = byte (cs ! 1) in
           if s2 < 0x80 \<or> 0xBF < s2 then (RuneError, 1)
           else if sz \<le> 3 then ((s0 mod 16) * 4096 + (s1 mod 64) * 64 + s2 mod 64, 3)
           else
             let s3 = byte (cs ! 2) in
             if s3 < 0x80 \<or> 0xBF < s3 then (RuneError, 1)
             else ((s0 mod 8) * 262144 + (s1 mod 64) * 4096 + (s2 mod 64) * 64
                     + s3 mod 64, 4))"

section \<open>Package regexp\<close>

text \<open>
  The syntax tree of a pattern.  A character class is a list of inclusive rune ranges;
  \<open>NCls\<close> is a negated class \<^verbatim>\<open>[^...]\<close>.  \<open>AnyNotNL\<close> is \<^verbatim>\<open>.\<close> (no \<^verbatim>\<open>s\<close> flag is set in
  this file, so it excludes the newline).  \<open>BeginText\<close> is \<^verbatim>\<open>^\<close> and \<open>EndText\<close> is both
  \<^verbatim>\<open>$\<close> and \<^verbatim>\<open>\z\<close>: no pattern of the file sets the \<^verbatim>\<open>m\<close> flag, so they match at the
  two ends of the text only.  \<open>Group i r\<close> is the \<open>i\<close>-th capturing group, numbered by
  its opening parenthesis from 1; \<^verbatim>\<open>(?:...)\<close> leaves no node.
\<close>

datatype regex =
    Lit rune
  | Cls "(rune \<times> rune) list"
  | NCls "(rune \<times> rune) list"
  | AnyNotNL
  | BeginText
  | EndText
  | Empty
  | Seq regex regex
  | Alt regex regex
  | Star regex
  | Group nat regex

record mstate =
  pos :: nat
  rest :: string
  caps :: "nat \<rightharpoonup> nat \<times> nat"

definition in_class :: "(rune \<times> rune) list \<Rightarrow> rune \<Rightarrow> bool" where
  "in_class rs c = list_ex (\<lambda>(lo, hi). lo \<le> c \<and> c \<le> hi) rs"

text \<open>One rune is read at the current position and tested; the end of the text fails.\<close>

definition step :: "(rune \<Rightarrow> bool) \<Rightarrow> (mstate \<Rightarrow> mstate option) \<Rightarrow> mstate \<Rightarrow> mstate option" where
  "step P k s =
    (case rest s of
       [] \<Rightarrow> None
     | _ # _ \<Rightarrow>
        (case DecodeRuneInString (rest s) of
           (c, w) \<Rightarrow> if P c then k (s\<lparr>pos := pos s + w, rest := drop w (rest s)\<rparr>) else None))"

text \<open>
  The greedy star: one more iteration is preferred to leaving the loop, and an iteration
  that consumed nothing is not repeated.  The first argument bounds the number of
  iterations by the number of bytes left plus one, which no run can exceed since every
  iteration consumes at least one byte.
\<close>

fun star_loop ::
  "nat \<Rightarrow> ((mstate \<Rightarrow> mstate option) \<Rightarrow> mstate \<Rightarrow> mstate option) \<Rightarrow>
   (mstate \<Rightarrow> mstate option) \<Rightarrow> mstate \<Rightarrow> mstate option" where
  "star_loop 0 body k s = k s"
| "star_loop (Suc n) body k s =
    (case body (\<lambda>s'. if length (rest s') < length (rest s) then star_loop n body k s' else None) s of
       Some r \<Rightarrow> Some r
     | None \<Rightarrow> k s)"

text \<open>
  The matcher, in continuation-passing style: \<open>rmatch re k s\<close> matches \<open>re\<close> at state \<open>s\<close>
  and hands every way of doing so to \<open>k\<close>, in the order of preference of Go's leftmost-first
  semantics (the left alternative first, the longer repetition first), until \<open>k\<close> accepts.
  This is the match "that a backtracking search would have found first", which is how
  package \<^verbatim>\<open>regexp\<close> specifies its result.
\<close>

primrec rmatch :: "regex \<Rightarrow> (mstate \<Rightarrow> mstate option) \<Rightarrow> mstate \<Rightarrow> mstate option" where
  "rmatch (Lit c) k s = step (\<lambda>x. x = c) k s"
| "rmatch (Cls rs) k s = step (in_class rs) k s"
| "rmatch (NCls rs) k s = step (\<lambda>x. \<not> in_class rs x) k s"
| "rmatch AnyNotNL k s = step (\<lambda>x. x \<noteq> 0x0A) k s"
| "rmatch BeginText k s = (if pos s = 0 then k s else None)"
| "rmatch EndText k s = (if rest s = [] then k s else None)"
| "rmatch Empty k s = k s"
| "rmatch (Seq a b) k s = rmatch a (rmatch b k) s"
| "rmatch (Alt a b) k s = (case rmatch a k s of Some r \<Rightarrow> Some r | None \<Rightarrow> rmatch b k s)"
| "rmatch (Star a) k s = star_loop (Suc (length (rest s))) (rmatch a) k s"
| "rmatch (Group i a) k s =
     rmatch a (\<lambda>s'. k (s'\<lparr>caps := (caps s')(i \<mapsto> (pos s, pos s'))\<rparr>)) s"


text \<open>
  The unanchored search of the backtracker: a match is tried at the current position and,
  when there is none, at the start of the next rune, up to and including the end of the
  text.  The result is the start of the leftmost match and the state at its end.
\<close>

declare DecodeRuneInString.simps [simp del]

lemma DecodeRune_width:
  "xs \<noteq> [] \<Longrightarrow> DecodeRuneInString xs = (c, w) \<Longrightarrow> 0 < w \<and> w \<le> length xs"
  by (cases xs) (auto simp: DecodeRuneInString.simps Let_def Suc_le_eq split: if_splits)

lemma DecodeRune_shorter:
  "(c, w) = DecodeRuneInString (x # xs) \<Longrightarrow> Suc (length xs) - w < Suc (length xs)"
  using DecodeRune_width[of "x # xs" c w] by simp

function search :: "regex \<Rightarrow> nat \<Rightarrow> string \<Rightarrow> (nat \<times> mstate) option" where
  "search re p xs =
    (case rmatch re Some \<lparr>pos = p, rest = xs, caps = Map.empty\<rparr> of
       Some s \<Rightarrow> Some (p, s)
     | None \<Rightarrow>
        (case xs of
           [] \<Rightarrow> None
         | _ # _ \<Rightarrow> (case DecodeRuneInString xs of (c, w) \<Rightarrow> search re (p + w) (drop w xs))))"
  by pat_completeness auto
termination
  by (relation "measure (\<lambda>(re, p, xs). length xs)")
     (auto intro: DecodeRune_shorter)

declare search.simps [simp del]

lemma search_hit:
  "rmatch re Some \<lparr>pos = p, rest = xs, caps = Map.empty\<rparr> = Some s \<Longrightarrow>
   search re p xs = Some (p, s)"
  by (subst search.simps) simp

lemma search_end:
  "rmatch re Some \<lparr>pos = p, rest = [], caps = Map.empty\<rparr> = None \<Longrightarrow> search re p [] = None"
  by (subst search.simps) simp

lemma search_skip:
  "rmatch re Some \<lparr>pos = p, rest = xs, caps = Map.empty\<rparr> = None \<Longrightarrow> xs \<noteq> [] \<Longrightarrow>
   DecodeRuneInString xs = (c, w) \<Longrightarrow> search re p xs = search re (p + w) (drop w xs)"
  by (subst search.simps, cases xs) auto

text \<open>\<^verbatim>\<open>Regexp.NumSubexp\<close>: the number of capturing groups, the largest group number.\<close>

primrec NumSubexp :: "regex \<Rightarrow> nat" where
  "NumSubexp (Lit c) = 0"
| "NumSubexp (Cls rs) = 0"
| "NumSubexp (NCls rs) = 0"
| "NumSubexp AnyNotNL = 0"
| "NumSubexp BeginText = 0"
| "NumSubexp EndText = 0"
| "NumSubexp Empty = 0"
| "NumSubexp (Seq a b) = max (NumSubexp a) (NumSubexp b)"
| "NumSubexp (Alt a b) = max (NumSubexp a) (NumSubexp b)"
| "NumSubexp (Star a) = NumSubexp a"
| "NumSubexp (Group i a) = max i (NumSubexp a)"

text \<open>
  \<^verbatim>\<open>Regexp.doExecute\<close> searches from byte offset \<open>p\<close> and returns the index array of the
  match: the start and the end of the whole match, then the start and the end of every
  group, \<open>-1\<close> twice for a group that took no part in the match; the empty array when
  nothing matches.  \<^verbatim>\<open>FindStringSubmatchIndex\<close> is the search from offset 0.
\<close>

definition cap_pair :: "(nat \<times> nat) option \<Rightarrow> int list" where
  "cap_pair c = (case c of None \<Rightarrow> [- 1, - 1] | Some (a, b) \<Rightarrow> [int a, int b])"

definition doExecute :: "regex \<Rightarrow> string \<Rightarrow> nat \<Rightarrow> int list" where
  "doExecute re s p =
    (case search re p (drop p s) of
       None \<Rightarrow> []
     | Some (m0, st) \<Rightarrow>
         [int m0, int (pos st)] @ concat (map (\<lambda>i. cap_pair (caps st i)) [1..<Suc (NumSubexp re)]))"

definition FindStringSubmatchIndex :: "regex \<Rightarrow> string \<Rightarrow> int list" where
  "FindStringSubmatchIndex re s = doExecute re s 0"

text \<open>
  A match ends at or after the position it started from and inside the text; the loop of
  \<^verbatim>\<open>allMatches\<close> below terminates for that reason.
\<close>

definition ext :: "mstate \<Rightarrow> mstate \<Rightarrow> bool" where
  "ext s s' = (\<exists>n\<le>length (rest s). rest s' = drop n (rest s) \<and> pos s' = pos s + n)"

lemma ext_refl: "ext s s"
  by (auto simp: ext_def intro: exI[of _ 0])

lemma ext_trans: "ext s s' \<Longrightarrow> ext s' s'' \<Longrightarrow> ext s s''"
  unfolding ext_def
  by (elim exE conjE, rule_tac x = "n + na" in exI) (auto simp: add.commute)

lemma ext_caps: "ext s s' \<Longrightarrow> ext s (s'\<lparr>caps := c\<rparr>)"
  by (simp add: ext_def)

lemma step_ext:
  assumes "step P k s = Some r"
  shows "\<exists>s'. k s' = Some r \<and> ext s s'"
proof (cases "rest s")
  case Nil
  with assms show ?thesis by (simp add: step_def)
next
  case (Cons x xs)
  obtain c w where d: "DecodeRuneInString (rest s) = (c, w)" by force
  with Cons have w: "0 < w" "w \<le> length (rest s)"
    using DecodeRune_width[of "rest s" c w] by auto
  from assms Cons d have "k (s\<lparr>pos := pos s + w, rest := drop w (rest s)\<rparr>) = Some r"
    by (auto simp: step_def split: if_splits)
  moreover have "ext s (s\<lparr>pos := pos s + w, rest := drop w (rest s)\<rparr>)"
    using w by (auto simp: ext_def)
  ultimately show ?thesis by blast
qed

lemma star_loop_ext:
  assumes body: "\<And>k s r. body k s = Some r \<Longrightarrow> \<exists>s'. k s' = Some r \<and> ext s s'"
  shows "star_loop n body k s = Some r \<Longrightarrow> \<exists>s'. k s' = Some r \<and> ext s s'"
proof (induction n arbitrary: s)
  case 0
  then show ?case by (auto intro: ext_refl)
next
  case (Suc n)
  let ?k = "\<lambda>s'. if length (rest s') < length (rest s) then star_loop n body k s' else None"
  show ?case
  proof (cases "body ?k s")
    case None
    with Suc.prems show ?thesis by (auto intro: ext_refl)
  next
    case (Some r')
    with Suc.prems have "r' = r" by simp
    with Some body[of ?k s r] obtain s1 where s1: "?k s1 = Some r" "ext s s1" by blast
    then have "star_loop n body k s1 = Some r" by (simp split: if_splits)
    from Suc.IH[OF this] s1(2) show ?thesis by (blast intro: ext_trans)
  qed
qed

lemma rmatch_ext: "rmatch re k s = Some r \<Longrightarrow> \<exists>s'. k s' = Some r \<and> ext s s'"
proof (induction re arbitrary: k s r)
  case (Seq a b)
  from Seq.prems have "rmatch a (rmatch b k) s = Some r" by simp
  from Seq.IH(1)[OF this] obtain s1 where "rmatch b k s1 = Some r" "ext s s1" by blast
  with Seq.IH(2)[of k s1 r] show ?case by (blast intro: ext_trans)
next
  case (Alt a b)
  then show ?case by (auto split: option.splits)
next
  case (Star a)
  from Star.prems have "star_loop (Suc (length (rest s))) (rmatch a) k s = Some r" by simp
  from star_loop_ext[of "rmatch a", OF Star.IH this] show ?case .
next
  case (Group i a)
  from Group.prems Group.IH[of "\<lambda>s'. k (s'\<lparr>caps := (caps s')(i \<mapsto> (pos s, pos s'))\<rparr>)" s r]
  obtain s1 where "k (s1\<lparr>caps := (caps s1)(i \<mapsto> (pos s, pos s1))\<rparr>) = Some r" "ext s s1"
    by auto
  then show ?case by (blast intro: ext_caps)
qed (auto dest: step_ext intro: ext_refl split: if_splits)

lemma search_bounds:
  "search re p xs = Some (m0, st) \<Longrightarrow> p \<le> m0 \<and> m0 \<le> pos st \<and> pos st \<le> p + length xs"
proof (induction re p xs rule: search.induct)
  case (1 re p xs)
  show ?case
  proof (cases "rmatch re Some \<lparr>pos = p, rest = xs, caps = Map.empty\<rparr>")
    case (Some s)
    with "1.prems" have "m0 = p" "st = s" by (simp_all add: search_hit)
    with rmatch_ext[OF Some] show ?thesis by (auto simp: ext_def)
  next
    case None
    show ?thesis
    proof (cases xs)
      case Nil
      with None "1.prems" show ?thesis by (simp add: search_end)
    next
      case (Cons y ys)
      obtain c w where d: "DecodeRuneInString xs = (c, w)" by force
      with Cons have w: "0 < w" "w \<le> length xs"
        using DecodeRune_width[of xs c w] by auto
      from None Cons d "1.prems" have "search re (p + w) (drop w xs) = Some (m0, st)"
        using search_skip[of re p xs c w] by simp
      from "1.IH"[OF None Cons d[symmetric] this] w show ?thesis by simp
    qed
  qed
qed

lemma doExecute_bounds:
  assumes "doExecute re s p = ms" "ms \<noteq> []" "p \<le> length s"
  shows "int p \<le> ms ! 0 \<and> ms ! 0 \<le> ms ! 1 \<and> ms ! 1 \<le> int (length s)"
proof -
  from assms obtain m0 st where f: "search re p (drop p s) = Some (m0, st)"
    by (auto simp: doExecute_def split: option.splits)
  with assms(1) have "ms ! 0 = int m0" "ms ! 1 = int (pos st)"
    by (auto simp: doExecute_def)
  with search_bounds[OF f] assms(3) show ?thesis by simp
qed

text \<open>
  \<^verbatim>\<open>Regexp.allMatches\<close>: the successive non-overlapping matches, each searched from the
  end of the one before.  An empty match moves the position on by one rune (past the end
  of the text when no rune is left) and is dropped when it touches the match before it.
  \<open>n\<close> bounds the number of matches delivered.
\<close>

function allMatches :: "regex \<Rightarrow> string \<Rightarrow> nat \<Rightarrow> nat \<Rightarrow> nat \<Rightarrow> int \<Rightarrow> int list list" where
  "allMatches re s n p i prevMatchEnd =
    (if i < n \<and> p \<le> length s then
       (let ms = doExecute re s p in
        if length ms = 0 then []
        else if ms ! 1 = int p then
          (let accept = (ms ! 0 \<noteq> prevMatchEnd);
               width = snd (DecodeRuneInString (drop p s));
               p' = (if width > 0 then p + width else length s + 1)
           in (if accept then [ms] else []) @
              allMatches re s n p' (if accept then i + 1 else i) (ms ! 1))
        else ms # allMatches re s n (nat (ms ! 1)) (i + 1) (ms ! 1))
     else [])"
  by pat_completeness auto
termination
proof (relation "measure (\<lambda>(re, s, n, p, i, prev). Suc (length s) - p)", goal_cases)
  case 1
  show ?case by simp
next
  case (2 re s n p i prevMatchEnd ms accept width p')
  then show ?case by (auto split: if_splits)
next
  case (3 re s n p i prevMatchEnd ms)
  with doExecute_bounds[of re s p ms] show ?case by auto
qed

declare allMatches.simps [simp del]

definition FindAllString :: "regex \<Rightarrow> string \<Rightarrow> int \<Rightarrow> string list" where
  "FindAllString re s n =
    map (\<lambda>m. take (nat (m ! 1) - nat (m ! 0)) (drop (nat (m ! 0)) s))
      (allMatches re s (if n < 0 then length s + 1 else nat n) 0 0 (- 1))"


section \<open>Package strings\<close>

text \<open>\<^verbatim>\<open>unicode.IsSpace\<close>: the code points with Unicode's White Space property.\<close>

definition IsSpace :: "rune \<Rightarrow> bool" where
  "IsSpace r = in_class [(0x09, 0x0D), (0x20, 0x20), (0x85, 0x85), (0xA0, 0xA0), (0x1680, 0x1680),
     (0x2000, 0x200A), (0x2028, 0x2029), (0x202F, 0x202F), (0x205F, 0x205F), (0x3000, 0x3000)] r"

text \<open>
  \<^verbatim>\<open>utf8.DecodeLastRuneInString\<close>: the rune at the end of the string.  It looks for the
  start byte of that rune among the last four bytes and decodes from there; the result is
  \<^verbatim>\<open>(RuneError, 1)\<close> unless that decoding ends exactly at the end of the string.
\<close>

definition RuneStart :: "char \<Rightarrow> bool" where
  "RuneStart c = (byte c < 0x80 \<or> 0xC0 \<le> byte c)"

definition last_rune_start :: "string \<Rightarrow> int" where
  "last_rune_start s =
    (let end = int (length s); lim = max (end - 4) 0 in
     case find (\<lambda>j. RuneStart (s ! nat j)) (filter (\<lambda>j. lim \<le> j) [end - 2, end - 3, end - 4]) of
       Some j \<Rightarrow> j
     | None \<Rightarrow> max (lim - 1) 0)"

definition DecodeLastRuneInString :: "string \<Rightarrow> rune \<times> nat" where
  "DecodeLastRuneInString s =
    (let end = int (length s) in
     if end = 0 then (RuneError, 0)
     else if byte (s ! nat (end - 1)) < 0x80 then (byte (s ! nat (end - 1)), 1)
     else
       let start = last_rune_start s in
       case DecodeRuneInString (drop (nat start) s) of
         (r, w) \<Rightarrow> if start + int w \<noteq> end then (RuneError, 1) else (r, w))"

text \<open>
  \<^verbatim>\<open>strings.TrimSpace\<close>: the string without its leading and its trailing white space, read
  rune by rune from the left and then from the right.
\<close>

function TrimLeftSpace :: "string \<Rightarrow> string" where
  "TrimLeftSpace s =
    (case s of
       [] \<Rightarrow> []
     | _ # _ \<Rightarrow> (case DecodeRuneInString s of
                  (r, w) \<Rightarrow> if IsSpace r then TrimLeftSpace (drop w s) else s))"
  by pat_completeness auto
termination
  by (relation "measure length") (auto intro: DecodeRune_shorter)

declare TrimLeftSpace.simps [simp del]

lemma find_in_set: "find P xs = Some x \<Longrightarrow> x \<in> set xs"
  by (induction xs) (auto split: if_splits)

lemma last_rune_start_less: "s \<noteq> [] \<Longrightarrow> last_rune_start s < int (length s)"
  by (auto simp: last_rune_start_def Let_def max_def split: option.splits dest!: find_in_set)

lemma DecodeLastRune_shorter:
  assumes "(r, w) = DecodeLastRuneInString (x # xs)"
  shows "Suc (length xs) - w < Suc (length xs)"
proof -
  obtain r' w' where d: "DecodeRuneInString (drop (nat (last_rune_start (x # xs))) (x # xs)) = (r', w')"
    by force
  from last_rune_start_less[of "x # xs"] have "int w' = int (Suc (length xs)) - last_rune_start (x # xs) \<Longrightarrow> 0 < w'"
    by simp
  with assms d have "0 < w"
    by (auto simp: DecodeLastRuneInString_def Let_def split: if_splits)
  then show ?thesis by simp
qed

function TrimRightSpace :: "string \<Rightarrow> string" where
  "TrimRightSpace s =
    (case s of
       [] \<Rightarrow> []
     | _ # _ \<Rightarrow> (case DecodeLastRuneInString s of
                  (r, w) \<Rightarrow> if IsSpace r then TrimRightSpace (take (length s - w) s) else s))"
  by pat_completeness auto
termination
  by (relation "measure length") (auto intro: DecodeLastRune_shorter)

declare TrimRightSpace.simps [simp del]

definition TrimSpace :: "string \<Rightarrow> string" where
  "TrimSpace s = TrimRightSpace (TrimLeftSpace s)"

text \<open>
  \<^verbatim>\<open>strings.Replace(s, old, new, n)\<close>: the first \<open>n\<close> non-overlapping instances of \<open>old\<close>,
  found from left to right, are replaced by \<open>new\<close>; a negative \<open>n\<close> sets no limit.  The
  string is returned as it is when \<open>old\<close> equals \<open>new\<close> or \<open>n\<close> is 0.  An empty \<open>old\<close>
  matches before every rune and at the end of the string.
\<close>

fun replace_scan :: "string \<Rightarrow> string \<Rightarrow> int \<Rightarrow> string \<Rightarrow> string" where
  "replace_scan old new n [] = []"
| "replace_scan old new n (c # cs) =
    (if n = 0 then c # cs
     else if prefix old (c # cs) then new @ replace_scan old new (n - 1) (drop (length old - 1) cs)
     else c # replace_scan old new n cs)"

function replace_empty :: "string \<Rightarrow> int \<Rightarrow> string \<Rightarrow> string" where
  "replace_empty new n s =
    (if n = 0 then s
     else new @ (case s of
                   [] \<Rightarrow> []
                 | _ # _ \<Rightarrow> (case DecodeRuneInString s of
                              (r, w) \<Rightarrow> take w s @ replace_empty new (n - 1) (drop w s))))"
  by pat_completeness auto
termination
  by (relation "measure (\<lambda>(new, n, s). length s)") (auto intro: DecodeRune_shorter)

declare replace_empty.simps [simp del]

definition Replace :: "string \<Rightarrow> string \<Rightarrow> string \<Rightarrow> int \<Rightarrow> string" where
  "Replace s old new n =
    (if old = new \<or> n = 0 then s
     else if old = [] then replace_empty new n s
     else replace_scan old new n s)"

text \<open>
  \<^verbatim>\<open>strings.NewReplacer(old1, new1, old2, new2, ...).Replace\<close>: the replacements are made
  in the order in which they appear in the string, without overlap, and at each position
  the old strings are compared in argument order.  No replacer of this file has an empty
  old string; such a pair is passed over here.
\<close>

fun Replacer_Replace :: "(string \<times> string) list \<Rightarrow> string \<Rightarrow> string" where
  "Replacer_Replace oldnew [] = []"
| "Replacer_Replace oldnew (c # cs) =
    (case find (\<lambda>(old, new). old \<noteq> [] \<and> prefix old (c # cs)) oldnew of
       Some (old, new) \<Rightarrow> new @ Replacer_Replace oldnew (drop (length old - 1) cs)
     | None \<Rightarrow> c # Replacer_Replace oldnew cs)"

section \<open>tokenize/pragmatic.go\<close>

subsection \<open>The segmenter\<close>

text \<open>
  A run-time panic of Go ends the call; it is a value of the model.  The three kinds are
  an index out of range (\<^verbatim>\<open>loc[2]\<close>), slice bounds out of range (\<^verbatim>\<open>text[:loc[2]]\<close>) and a
  method call through a nil interface value.
\<close>

datatype panic = IndexOutOfRange | SliceBoundsOutOfRange | NilPointerDereference

text \<open>
  \<^verbatim>\<open>languageProcessor\<close> is an interface with the one method \<^verbatim>\<open>process\<close>; a value of the
  interface type is \<^verbatim>\<open>nil\<close> (\<open>None\<close>) or holds an implementation of the method.
\<close>

type_synonym languageProcessor = "(string \<Rightarrow> string list) option"

record PragmaticSegmenter =
  processor :: languageProcessor

definition NewPragmaticSegmenter :: "string \<Rightarrow> PragmaticSegmenter" where
  "NewPragmaticSegmenter lang = \<lparr>processor = None\<rparr>"

definition Tokenize :: "PragmaticSegmenter \<Rightarrow> string \<Rightarrow> panic + string list" where
  "Tokenize p txt =
    (case processor p of
       None \<Rightarrow> Inl NilPointerDereference
     | Some process \<Rightarrow> Inr (process txt))"

subsection \<open>Rules\<close>

record Rule =
  Pattern :: regex
  Replacement :: string

text \<open>
  The body of the loop of \<^verbatim>\<open>Rule.Sub\<close>,
  \<^verbatim>\<open>text = text[:loc[2]] + r.Replacement + text[loc[3]:]\<close>, with the checks that Go makes
  from left to right: the index \<^verbatim>\<open>loc[2]\<close>, the slice up to it, the index \<^verbatim>\<open>loc[3]\<close> and
  the slice from it.
\<close>

definition Sub_body :: "Rule \<Rightarrow> string \<Rightarrow> int list \<Rightarrow> panic + string" where
  "Sub_body r txt loc =
    (if length loc \<le> 2 then Inl IndexOutOfRange
     else if loc ! 2 < 0 \<or> int (length txt) < loc ! 2 then Inl SliceBoundsOutOfRange
     else if length loc \<le> 3 then Inl IndexOutOfRange
     else if loc ! 3 < 0 \<or> int (length txt) < loc ! 3 then Inl SliceBoundsOutOfRange
     else Inr (take (nat (loc ! 2)) txt @ Replacement r @ drop (nat (loc ! 3)) txt))"

text \<open>
  The loop of \<^verbatim>\<open>Rule.Sub\<close>:
  \<^verbatim>\<open>for loc := f(text); len(loc) > 0; loc = f(text) { ... }; return text\<close>.
  Nothing bounds the number of iterations, so the loop is a partial function: \<open>None\<close> is
  a run that never ends.  The last argument counts the iterations made so far; it is not
  read by the loop and is returned with the result.
\<close>

partial_function (option) Sub_loop :: "Rule \<Rightarrow> string \<Rightarrow> nat \<Rightarrow> ((panic + string) \<times> nat) option" where
  "Sub_loop r txt n =
    (let loc = FindStringSubmatchIndex (Pattern r) txt in
     if length loc > 0 then
       (case Sub_body r txt loc of
          Inl e \<Rightarrow> Some (Inl e, n)
        | Inr txt' \<Rightarrow> Sub_loop r txt' (Suc n))
     else Some (Inr txt, n))"

definition Sub :: "Rule \<Rightarrow> string \<Rightarrow> (panic + string) option" where
  "Sub r txt = map_option fst (Sub_loop r txt 0)"

text \<open>
  Several rules in a row, each applied to the result of the one before, as a caller does
  with a rule list (\<^verbatim>\<open>for _, r := range rules { text = r.Sub(text) }\<close>): a panic or a
  run that never ends stops the sequence.
\<close>

fun Sub_all :: "Rule list \<Rightarrow> string \<Rightarrow> (panic + string) option" where
  "Sub_all [] txt = Some (Inr txt)"
| "Sub_all (r # rs) txt =
    (case Sub r txt of
       None \<Rightarrow> None
     | Some (Inl e) \<Rightarrow> Some (Inl e)
     | Some (Inr txt') \<Rightarrow> Sub_all rs txt')"

subsection \<open>Pattern syntax\<close>

text \<open>
  A concatenation and an alternation of several patterns; \<^verbatim>\<open>x+\<close> is \<^verbatim>\<open>xx*\<close>, and a counted
  repetition \<^verbatim>\<open>x{n}\<close> is written out as \<open>n\<close> copies.  The Perl classes are the range lists
  that package \<^verbatim>\<open>regexp/syntax\<close> gives them: \<^verbatim>\<open>\s\<close> is \<^verbatim>\<open>[\t\n\f\r ]\<close>, \<^verbatim>\<open>\S\<close> its complement up
  to the largest rune, \<^verbatim>\<open>\d\<close> is \<^verbatim>\<open>[0-9]\<close>.
\<close>

definition seqs :: "regex list \<Rightarrow> regex" where
  "seqs rs = foldr Seq rs Empty"

fun alts :: "regex list \<Rightarrow> regex" where
  "alts [] = Empty"
| "alts [r] = r"
| "alts (r # rs) = Alt r (alts rs)"

definition plus :: "regex \<Rightarrow> regex" where
  "plus r = Seq r (Star r)"

definition space_ranges :: "(rune \<times> rune) list" where
  "space_ranges = [(0x09, 0x0A), (0x0C, 0x0D), (0x20, 0x20)]"

definition not_space_ranges :: "(rune \<times> rune) list" where
  "not_space_ranges = [(0x00, 0x08), (0x0B, 0x0B), (0x0E, 0x1F), (0x21, 0x10FFFF)]"

definition ws :: regex where
  "ws = Cls space_ranges"

definition non_ws :: regex where
  "non_ws = Cls not_space_ranges"

definition any_rune :: regex where
  "any_rune = Cls (space_ranges @ not_space_ranges)"

definition digit :: regex where
  "digit = Cls [(0x30, 0x39)]"

definition upper :: regex where
  "upper = Cls [(0x41, 0x5A)]"

definition lower :: regex where
  "lower = Cls [(0x61, 0x7A)]"

definition dot :: regex where
  "dot = Lit 0x2E"

subsection \<open>The reserved markers\<close>

text \<open>
  The marker that stands for a protected period, as the string literal stands in
  \<^verbatim>\<open>tokenize/pragmatic.go\<close>: the six bytes \<^verbatim>\<open>D0 B2 D0 98 D1 93\<close>, which are the three runes
  \<^verbatim>\<open>U+0432 U+0418 U+0453\<close>.  (They are the bytes \<^verbatim>\<open>E2 88 AF\<close> of \<^verbatim>\<open>U+222F\<close>, the marker of
  the second copy of the rules among the sources, read as Mac Cyrillic and encoded again;
  every marker of the file went the same way.)  The patterns of the AM/PM rules spell the
  marker rune by rune.
\<close>

definition period_marker :: string where
  "period_marker = [CHR 0xD0, CHR 0xB2, CHR 0xD0, CHR 0x98, CHR 0xD1, CHR 0x93]"

definition marker_runes :: "regex list" where
  "marker_runes = [Lit 0x432, Lit 0x418, Lit 0x453]"

subsection \<open>numbers\<close>

text \<open>\<^verbatim>\<open>(\.)\d\<close>\<close>
definition periodBeforeNumberRule :: Rule where
  "periodBeforeNumberRule =
    \<lparr>Pattern = seqs [Group 1 dot, digit], Replacement = period_marker\<rparr>"

text \<open>\<^verbatim>\<open>\d(\.)\S\<close>\<close>
definition numberAfterPeriodBeforeLetterRule :: Rule where
  "numberAfterPeriodBeforeLetterRule =
    \<lparr>Pattern = seqs [digit, Group 1 dot, non_ws], Replacement = period_marker\<rparr>"

text \<open>\<^verbatim>\<open>[\n\r]\d(\.)(?:[\s\S]|\))\<close>\<close>
definition newLineNumberPeriodSpaceLetterRule :: Rule where
  "newLineNumberPeriodSpaceLetterRule =
    \<lparr>Pattern = seqs [Cls [(0x0A, 0x0A), (0x0D, 0x0D)], digit, Group 1 dot,
                      alts [any_rune, Lit 0x29]],
     Replacement = period_marker\<rparr>"

text \<open>\<^verbatim>\<open>^\d(\.)(?:[\s\S]|\))\<close>\<close>
definition startLineNumberPeriodRule :: Rule where
  "startLineNumberPeriodRule =
    \<lparr>Pattern = seqs [BeginText, digit, Group 1 dot, alts [any_rune, Lit 0x29]],
     Replacement = period_marker\<rparr>"

text \<open>\<^verbatim>\<open>^\d\d(\.)(?:[\s\S]|\))\<close>\<close>
definition startLineTwoDigitNumberPeriodRule :: Rule where
  "startLineTwoDigitNumberPeriodRule =
    \<lparr>Pattern = seqs [BeginText, digit, digit, Group 1 dot, alts [any_rune, Lit 0x29]],
     Replacement = period_marker\<rparr>"

definition allNumberRules :: "Rule list" where
  "allNumberRules =
    [periodBeforeNumberRule, numberAfterPeriodBeforeLetterRule,
     newLineNumberPeriodSpaceLetterRule, startLineNumberPeriodRule,
     startLineTwoDigitNumberPeriodRule]"

subsection \<open>common\<close>

text \<open>\<^verbatim>\<open>(\.)'s\s|(\.)'s$|(\.)'s\z\<close>\<close>
definition possessiveAbbreviationRule :: Rule where
  "possessiveAbbreviationRule =
    \<lparr>Pattern = alts [seqs [Group 1 dot, Lit 0x27, Lit 0x73, ws],
                      seqs [Group 2 dot, Lit 0x27, Lit 0x73, EndText],
                      seqs [Group 3 dot, Lit 0x27, Lit 0x73, EndText]],
     Replacement = period_marker\<rparr>"

subsection \<open>AM/PM\<close>

text \<open>
  \<^verbatim>\<open>P<marker>M(<marker>)\s[A-Z]\<close> and its three variants, each with the replacement
  \<^verbatim>\<open>"."\<close>.
\<close>

definition ampm_pattern :: "rune \<Rightarrow> rune \<Rightarrow> regex" where
  "ampm_pattern a m =
     seqs ([Lit a] @ marker_runes @ [Lit m, Group 1 (seqs marker_runes), ws, upper])"

definition upperCasePmRule :: Rule where
  "upperCasePmRule = \<lparr>Pattern = ampm_pattern 0x50 0x4D, Replacement = ''.''\<rparr>"

definition upperCaseAmRule :: Rule where
  "upperCaseAmRule = \<lparr>Pattern = ampm_pattern 0x41 0x4D, Replacement = ''.''\<rparr>"

definition lowerCasePmRule :: Rule where
  "lowerCasePmRule = \<lparr>Pattern = ampm_pattern 0x70 0x6D, Replacement = ''.''\<rparr>"

definition lowerCaseAmRule :: Rule where
  "lowerCaseAmRule = \<lparr>Pattern = ampm_pattern 0x61 0x6D, Replacement = ''.''\<rparr>"

definition allAmPmRules :: "Rule list" where
  "allAmPmRules = [upperCasePmRule, upperCaseAmRule, lowerCasePmRule, lowerCaseAmRule]"

subsection \<open>Single upper-case letters\<close>

text \<open>\<^verbatim>\<open>^[A-Z](\.)\s\<close>\<close>
definition singleUpperCaseLetterAtStartOfLineRule :: Rule where
  "singleUpperCaseLetterAtStartOfLineRule =
    \<lparr>Pattern = seqs [BeginText, upper, Group 1 dot, ws], Replacement = period_marker\<rparr>"

text \<open>\<^verbatim>\<open>\s[A-Z]\.\s\<close>\<close>
definition singleUpperCaseLetterRule :: Rule where
  "singleUpperCaseLetterRule =
    \<lparr>Pattern = seqs [ws, upper, dot, ws], Replacement = period_marker\<rparr>"

definition allSingleUpperCaseLetterRules :: "Rule list" where
  "allSingleUpperCaseLetterRules =
    [singleUpperCaseLetterAtStartOfLineRule, singleUpperCaseLetterRule]"

subsection \<open>Ellipses\<close>

text \<open>\<^verbatim>\<open>(\.\.\.)\s+[A-Z]\<close>, replacement the bytes \<^verbatim>\<open>D0 B2 D0 A8 D0 9F\<close> and a period.\<close>
definition threeConsecutiveRule :: Rule where
  "threeConsecutiveRule =
    \<lparr>Pattern = seqs [Group 1 (seqs [dot, dot, dot]), plus ws, upper],
     Replacement = [CHR 0xD0, CHR 0xB2, CHR 0xD0, CHR 0xA8, CHR 0xD0, CHR 0x9F, CHR ''.'']\<rparr>"

text \<open>\<^verbatim>\<open>\S(\.{3}\.)\s[A-Z]\<close>, replacement the bytes \<^verbatim>\<open>E2 88 86 E2 84 A2\<close>.\<close>
definition fourConsecutiveRule :: Rule where
  "fourConsecutiveRule =
    \<lparr>Pattern = seqs [non_ws, Group 1 (seqs [dot, dot, dot, dot]), ws, upper],
     Replacement = [CHR 0xE2, CHR 0x88, CHR 0x86, CHR 0xE2, CHR 0x84, CHR 0xA2]\<rparr>"

text \<open>\<^verbatim>\<open>(\s\.){3}\s\<close>, replacement the bytes \<^verbatim>\<open>D0 B2 D0 A9 D0 AF\<close>.\<close>
definition threeSpaceRule :: Rule where
  "threeSpaceRule =
    \<lparr>Pattern = seqs [Group 1 (seqs [ws, dot]), Group 1 (seqs [ws, dot]),
                      Group 1 (seqs [ws, dot]), ws],
     Replacement = [CHR 0xD0, CHR 0xB2, CHR 0xD0, CHR 0xA9, CHR 0xD0, CHR 0xAF]\<rparr>"

text \<open>\<^verbatim>\<open>[a-z](\.\s{3}\.(?:\z|$|\n))\<close>, replacement the bytes \<^verbatim>\<open>D0 B2 D0 A9 D0 AD\<close>.\<close>
definition fourSpaceRule :: Rule where
  "fourSpaceRule =
    \<lparr>Pattern = seqs [lower, Group 1 (seqs [dot, ws, ws, ws, dot,
                                            alts [EndText, EndText, Lit 0x0A]])],
     Replacement = [CHR 0xD0, CHR 0xB2, CHR 0xD0, CHR 0xA9, CHR 0xD0, CHR 0xAD]\<rparr>"

text \<open>\<^verbatim>\<open>\.\.\.\<close>, replacement the bytes \<^verbatim>\<open>E2 88 86 E2 84 A2\<close>.\<close>
definition otherThreePeriodRule :: Rule where
  "otherThreePeriodRule =
    \<lparr>Pattern = seqs [dot, dot, dot],
     Replacement = [CHR 0xE2, CHR 0x88, CHR 0x86, CHR 0xE2, CHR 0x84, CHR 0xA2]\<rparr>"

definition allEllipsesRules :: "Rule list" where
  "allEllipsesRules =
    [threeConsecutiveRule, fourConsecutiveRule, threeSpaceRule, fourSpaceRule,
     otherThreePeriodRule]"

subsection \<open>between\_punctuation\<close>

text \<open>
  The six patterns share one shape, \<^verbatim>\<open>OPEN([^CLOSE\\]+|\\{2}|\\.)*CLOSE\<close>, except the one
  for single quotes.  The delimiters of the arrow and of the smart quotes are the runes
  that the file holds: \<^verbatim>\<open>U+00AC U+0402\<close> and \<^verbatim>\<open>U+00AC U+0457\<close> for the arrows,
  \<^verbatim>\<open>U+0432 U+0410 U+042C\<close> and \<^verbatim>\<open>U+0432 U+0410 U+042D\<close> for the smart quotes; the negated
  class of each lists the runes of its closing delimiter and the backslash.
\<close>

definition between_pattern :: "rune list \<Rightarrow> rune list \<Rightarrow> rune list \<Rightarrow> regex" where
  "between_pattern opening excluded closing =
     seqs (map Lit opening @
           [Star (Group 1 (alts [plus (NCls (map (\<lambda>c. (c, c)) excluded)),
                                 seqs [Lit 0x5C, Lit 0x5C],
                                 seqs [Lit 0x5C, AnyNotNL]]))] @
           map Lit closing)"

text \<open>\<^verbatim>\<open>\s'(?:[^']|'[a-zA-Z])*'\<close>\<close>
definition betweenSingleQuotesRE :: regex where
  "betweenSingleQuotesRE =
     seqs [ws, Lit 0x27,
           Star (alts [NCls [(0x27, 0x27)], seqs [Lit 0x27, Cls [(0x61, 0x7A), (0x41, 0x5A)]]]),
           Lit 0x27]"

text \<open>\<^verbatim>\<open>"([^"\\]+|\\{2}|\\.)*"\<close>\<close>
definition betweenDoubleQuotesRE :: regex where
  "betweenDoubleQuotesRE = between_pattern [0x22] [0x22, 0x5C] [0x22]"

definition betweenArrowQuotesRE :: regex where
  "betweenArrowQuotesRE = between_pattern [0xAC, 0x402] [0xAC, 0x457, 0x5C] [0xAC, 0x457]"

definition betweenSmartQuotesRE :: regex where
  "betweenSmartQuotesRE =
     between_pattern [0x432, 0x410, 0x42C] [0x432, 0x410, 0x42D, 0x5C] [0x432, 0x410, 0x42D]"

text \<open>\<^verbatim>\<open>\[([^\]\\]+|\\{2}|\\.)*\]\<close>\<close>
definition betweenSquareBracketsRE :: regex where
  "betweenSquareBracketsRE = between_pattern [0x5B] [0x5D, 0x5C] [0x5D]"

text \<open>\<^verbatim>\<open>\(([^\(\)\\]+|\\{2}|\\.)*\)\<close>\<close>
definition betweenParensRE :: regex where
  "betweenParensRE = between_pattern [0x28] [0x28, 0x29, 0x5C] [0x29]"

subsection \<open>punctuation\_replacer\<close>

definition escapeRegexReservedCharacters :: "(string \<times> string) list" where
  "escapeRegexReservedCharacters =
    [(''('', [CHR 0x5C, CHR ''('']), ('')'', [CHR 0x5C, CHR '')'']),
     (''['', [CHR 0x5C, CHR ''['']), ('']'', [CHR 0x5C, CHR '']'']),
     (''-'', [CHR 0x5C, CHR ''-''])]"

definition subEscapeRegexReservedCharacters :: "(string \<times> string) list" where
  "subEscapeRegexReservedCharacters =
    [([CHR 0x5C, CHR ''(''], ''(''), ([CHR 0x5C, CHR '')''], '')''),
     ([CHR 0x5C, CHR ''[''], ''[''), ([CHR 0x5C, CHR '']''], '']''),
     ([CHR 0x5C, CHR ''-''], ''-'')]"

text \<open>
  The field \<^verbatim>\<open>text\<close> of the replacer is \<open>r_text\<close> here, \<open>text\<close> being a keyword of
  Isabelle.
\<close>

record punctuationReplacer =
  matches :: "string list"
  r_text :: string
  matchType :: string

text \<open>
  \<^verbatim>\<open>punctuationReplacer.sub\<close> replaces \<open>a\<close> by \<open>b\<close> in \<open>content\<close>, puts the result in the
  place of every instance of \<open>content\<close> in the text of the replacer, and returns it.  The
  method has a pointer receiver; the model returns the replacer it leaves behind.
\<close>

definition sub :: "punctuationReplacer \<Rightarrow> string \<Rightarrow> string \<Rightarrow> string \<Rightarrow> string \<times> punctuationReplacer" where
  "sub r content a b =
    (let repl = Replace content a b (- 1)
     in (repl, r\<lparr>r_text := Replace (r_text r) content repl (- 1)\<rparr>))"

text \<open>
  The markers of the protected punctuation, with the bytes of the file: an ampersand on
  each side of a three-rune name.  The characters they stand for are, in the same
  encoding, the ideographic full stop, the fullwidth full stop and the fullwidth
  exclamation mark.
\<close>

definition ideographic_full_stop :: string where
  "ideographic_full_stop = [CHR 0xD0, CHR 0xB3, CHR 0xD0, CHR 0x90, CHR 0xD0, CHR 0x92]"

definition fullwidth_full_stop :: string where
  "fullwidth_full_stop = [CHR 0xD0, CHR 0xBF, CHR 0xD0, CHR 0x89, CHR 0xD0, CHR 0x9E]"

definition fullwidth_exclamation :: string where
  "fullwidth_exclamation = [CHR 0xD0, CHR 0xBF, CHR 0xD0, CHR 0x89, CHR 0xD0, CHR 0x91]"

definition marker1 :: string where
  "marker1 = ''&'' @ [CHR 0xD0, CHR 0xB1, CHR 0xD0, CHR 0xA3, CHR 0xE2, CHR 0x88, CHR 0x9E] @ ''&''"

definition marker2 :: string where
  "marker2 = ''&'' @ [CHR 0xD0, CHR 0xB1, CHR 0xD0, CHR 0xA3, CHR 0xC2, CHR 0xB1] @ ''&''"

definition marker3 :: string where
  "marker3 = ''&'' @ [CHR 0xD0, CHR 0xB1, CHR 0xD0, CHR 0xA3, CHR 0xE2, CHR 0x89, CHR 0xA5] @ ''&''"

definition marker4 :: string where
  "marker4 = ''&'' @ [CHR 0xD0, CHR 0xB1, CHR 0xD0, CHR 0xA3, CHR 0xD1, CHR 0x96] @ ''&''"

definition marker5 :: string where
  "marker5 = ''&'' @ [CHR 0xD0, CHR 0xB1, CHR 0xD0, CHR 0xA3, CHR 0xD0, CHR 0x88] @ ''&''"

definition marker6 :: string where
  "marker6 = ''&'' @ [CHR 0xD0, CHR 0xB1, CHR 0xD0, CHR 0xA3, CHR 0xD0, CHR 0x84] @ ''&''"

definition apostrophe_marker :: string where
  "apostrophe_marker = ''&'' @ [CHR 0xD0, CHR 0xB2, CHR 0xD0, CHR 0x9E, CHR 0xD0, CHR 0x9B] @ ''&''"

text \<open>One turn of the loop of \<^verbatim>\<open>replacePunctuation\<close>, for the match \<open>m\<close>.\<close>

definition replace_match :: "punctuationReplacer \<Rightarrow> string \<Rightarrow> punctuationReplacer" where
  "replace_match r m0 =
    (let m = Replacer_Replace escapeRegexReservedCharacters m0;
         (s, r) = sub r m ''.'' period_marker;
         (sub1, r) = sub r s ideographic_full_stop marker1;
         (sub2, r) = sub r sub1 fullwidth_full_stop marker2;
         (sub3, r) = sub r sub2 fullwidth_exclamation marker3;
         (sub4, r) = sub r sub3 ''!'' marker4;
         (sub5, r) = sub r sub4 ''?'' marker5;
         (sub6, r) = sub r sub5 ''? '' marker6
     in if matchType r \<noteq> ''single'' then snd (sub r sub6 [CHR 0x27] apostrophe_marker) else r)"

definition replacePunctuation :: "punctuationReplacer \<Rightarrow> string list \<Rightarrow> string" where
  "replacePunctuation r ms =
    (let r = r\<lparr>r_text := Replacer_Replace escapeRegexReservedCharacters (r_text r)\<rparr>;
         r = foldl replace_match r ms
     in Replacer_Replace subEscapeRegexReservedCharacters (r_text r))"

definition replace :: "punctuationReplacer \<Rightarrow> string" where
  "replace r = replacePunctuation r (matches r)"

definition subPat :: "string \<Rightarrow> string \<Rightarrow> regex \<Rightarrow> string" where
  "subPat txt mtype pat =
    (let canidates = map TrimSpace (FindAllString pat txt (- 1));
         r = \<lparr>matches = canidates, r_text = txt, matchType = mtype\<rparr>
     in replace r)"

definition replaceBetweenQuotes :: "string \<Rightarrow> string" where
  "replaceBetweenQuotes txt0 =
    (let txt = subPat txt0 ''single'' betweenSingleQuotesRE;
         txt = subPat txt ''double'' betweenDoubleQuotesRE;
         txt = subPat txt ''double'' betweenSquareBracketsRE;
         txt = subPat txt ''double'' betweenParensRE;
         txt = subPat txt ''double'' betweenArrowQuotesRE;
         txt = subPat txt ''double'' betweenSmartQuotesRE
     in txt)"

section \<open>Running the model\<close>

text \<open>
  The equations that run the matcher, the rules and the replacer on a given text.
\<close>

lemmas rx_simps = FindStringSubmatchIndex_def doExecute_def search.simps step_def in_class_def
  cap_pair_def byte_def DecodeRuneInString.simps Let_def seqs_def plus_def ws_def non_ws_def
  any_rune_def digit_def upper_def lower_def dot_def space_ranges_def not_space_ranges_def
  period_marker_def marker_runes_def upt_conv_Cons

lemmas all_simps = FindAllString_def allMatches.simps between_pattern_def

text \<open>The three ways in which one turn of the loop of \<^verbatim>\<open>Rule.Sub\<close> goes on.\<close>

lemma Sub_loop_done:
  "FindStringSubmatchIndex (Pattern r) txt = [] \<Longrightarrow> Sub_loop r txt n = Some (Inr txt, n)"
  by (subst Sub_loop.simps) simp

lemma Sub_loop_panic:
  "FindStringSubmatchIndex (Pattern r) txt = loc \<Longrightarrow> loc \<noteq> [] \<Longrightarrow>
   Sub_body r txt loc = Inl e \<Longrightarrow> Sub_loop r txt n = Some (Inl e, n)"
  by (subst Sub_loop.simps) simp

lemma Sub_loop_step:
  "FindStringSubmatchIndex (Pattern r) txt = loc \<Longrightarrow> loc \<noteq> [] \<Longrightarrow>
   Sub_body r txt loc = Inr txt' \<Longrightarrow> Sub_loop r txt n = Sub_loop r txt' (Suc n)"
  by (subst Sub_loop.simps) simp

section \<open>The claims\<close>

text \<open>
  C1.  The claim: \<^verbatim>\<open>Rule.Sub\<close> replaces the captured region of each match, and a pattern
  with no capturing group has its whole match replaced, with a result for every text on
  which it matches.  The code reads \<^verbatim>\<open>loc[2]\<close> and \<^verbatim>\<open>loc[3]\<close> whatever the pattern is; the
  index array of a pattern without a group has two entries, so the first match ends the
  call with an index out of range.  Both rules of the file without a group do so, here on
  a text with an ellipsis and on a text with an initial.
\<close>

theorem Sub_without_group_panics:
  "Sub otherThreePeriodRule ''Wait... Really?'' = Some (Inl IndexOutOfRange) \<and>
   Sub singleUpperCaseLetterRule ''John F. Kennedy'' = Some (Inl IndexOutOfRange)"
  by (simp add: Sub_def Sub_loop.simps Sub_body_def rx_simps otherThreePeriodRule_def
      singleUpperCaseLetterRule_def)

text \<open>
  C4.  The claim: \<^verbatim>\<open>possessiveAbbreviationRule\<close> masks the period of \<^verbatim>\<open>.'s\<close> before white
  space or at the end of the text.  At the end of the text it is the second alternative
  of the pattern that matches, whose period is group 2; group 1 took no part, so
  \<^verbatim>\<open>loc[2]\<close> is \<open>-1\<close> and the slice \<^verbatim>\<open>text[:loc[2]]\<close> is out of bounds.
\<close>

lemma possessive_at_end_loc:
  "FindStringSubmatchIndex (Pattern possessiveAbbreviationRule) ''Corp.'s''
     = [4, 7, - 1, - 1, 4, 5, - 1, - 1]"
  by (simp add: rx_simps possessiveAbbreviationRule_def)

theorem possessive_at_end_panics:
  "Sub possessiveAbbreviationRule ''Corp.'s'' = Some (Inl SliceBoundsOutOfRange)"
  unfolding Sub_def
  by (subst Sub_loop_panic[OF possessive_at_end_loc]) (simp_all add: Sub_body_def)

text \<open>
  C5.  The claim: the five ellipsis rules have pairwise distinct replacements.  They have
  four: \<^verbatim>\<open>fourConsecutiveRule\<close> and \<^verbatim>\<open>otherThreePeriodRule\<close> share theirs, and the other
  three differ from it and from one another.
\<close>

theorem ellipsis_markers_not_distinct:
  "\<not> distinct (map Replacement allEllipsesRules)"
  by (simp add: allEllipsesRules_def threeConsecutiveRule_def fourConsecutiveRule_def
      threeSpaceRule_def fourSpaceRule_def otherThreePeriodRule_def)

theorem ellipsis_markers_amended:
  "distinct (map Replacement
     [threeConsecutiveRule, threeSpaceRule, fourSpaceRule, otherThreePeriodRule]) \<and>
   Replacement fourConsecutiveRule = Replacement otherThreePeriodRule"
  by (simp add: threeConsecutiveRule_def fourConsecutiveRule_def threeSpaceRule_def
      fourSpaceRule_def otherThreePeriodRule_def)

text \<open>
  C7.  The five number rules, one after the other, on \<^verbatim>\<open>The value is 3.14 today.\<close>: the
  period of \<^verbatim>\<open>3.14\<close> becomes the period marker and no other byte changes.
\<close>

theorem number_rules_protect_decimal:
  "Sub_all allNumberRules ''The value is 3.14 today.''
     = Some (Inr (''The value is 3'' @ period_marker @ ''14 today.''))"
  by (simp add: Sub_def Sub_loop.simps Sub_body_def rx_simps allNumberRules_def
      periodBeforeNumberRule_def numberAfterPeriodBeforeLetterRule_def
      newLineNumberPeriodSpaceLetterRule_def startLineNumberPeriodRule_def
      startLineTwoDigitNumberPeriodRule_def)

text \<open>
  C9.  \<^verbatim>\<open>NewPragmaticSegmenter\<close> leaves the processor nil whatever the language is, so
  \<^verbatim>\<open>Tokenize\<close> on its result calls a method of a nil interface value and panics on every
  text.
\<close>

theorem Tokenize_new_segmenter_panics:
  "Tokenize (NewPragmaticSegmenter lang) txt = Inl NilPointerDereference"
  by (simp add: Tokenize_def NewPragmaticSegmenter_def)

end
